theory Spec2Isabelle
  imports Complex_Main
begin

section \<open>Analog clock: coordinate mapper and redraw\<close>

text \<open>
  The development embeds the two modules of the repository, \<^verbatim>\<open>Analog_Clock.py\<close> and
  \<^verbatim>\<open>proctor_clock.py\<close>. Python floats are idealised as the reals, Python integers are
  \<open>int\<close>. A raised exception is the left summand of a sum type. Names are those of
  \<^verbatim>\<open>Analog_Clock.py\<close>; the names of \<^verbatim>\<open>proctor_clock.py\<close> are kept where they are
  different and carry the suffix \<open>_pc\<close> where they are the same.
\<close>

subsection \<open>Rectangles and errors\<close>

text \<open>A rectangle is the 4-tuple \<open>(x_min, y_min, x_max, y_max)\<close> that both constructors unpack.\<close>

type_synonym rect = "real \<times> real \<times> real \<times> real"

text \<open>The only exception the mapper code can raise on numeric rectangles: a float division
  whose divisor is zero.\<close>

datatype error = ZeroDivisionError

text \<open>Python's \<^verbatim>\<open>float(a) / float(b)\<close>.\<close>

definition float_div :: "real \<Rightarrow> real \<Rightarrow> error + real" where
  "float_div a b = (if b = 0 then Inl ZeroDivisionError else Inr (a / b))"

subsection \<open>Class \<^verbatim>\<open>mapper\<close> of \<^verbatim>\<open>Analog_Clock.py\<close>\<close>

record mapper =
  world :: rect
  viewport :: rect
  f :: real
  c_1 :: real
  c_2 :: real

text \<open>\<^verbatim>\<open>mapper.__init__\<close>: the two divisions are evaluated in source order, each may raise.\<close>

definition mapper_init :: "rect \<Rightarrow> rect \<Rightarrow> error + mapper" where
  "mapper_init wrld vprt =
     (case wrld of (x_min, y_min, x_max, y_max) \<Rightarrow>
     (case vprt of (X_min, Y_min, X_max, Y_max) \<Rightarrow>
     (case float_div (X_max - X_min) (x_max - x_min) of
        Inl e \<Rightarrow> Inl e
      | Inr f_x \<Rightarrow>
     (case float_div (Y_max - Y_min) (y_max - y_min) of
        Inl e \<Rightarrow> Inl e
      | Inr f_y \<Rightarrow>
       (let fac = min f_x f_y;
            x_c = 0.5 * (x_min + x_max);
            y_c = 0.5 * (y_min + y_max);
            X_c = 0.5 * (X_min + X_max);
            Y_c = 0.5 * (Y_min + Y_max)
        in Inr \<lparr> world = wrld, viewport = vprt, f = fac,
                  c_1 = X_c - fac * x_c, c_2 = Y_c - fac * y_c \<rparr>)))))"

text \<open>\<^verbatim>\<open>mapper.__windowToViewport\<close> (one point) and \<^verbatim>\<open>mapper.windowToViewport\<close> (two points).\<close>

definition windowToViewport_priv :: "mapper \<Rightarrow> real \<Rightarrow> real \<Rightarrow> real \<times> real" where
  "windowToViewport_priv self x y =
     (let X = f self * x + c_1 self;
          Y = f self * - y + c_2 self
      in (X, Y))"

definition windowToViewport ::
  "mapper \<Rightarrow> real \<Rightarrow> real \<Rightarrow> real \<Rightarrow> real \<Rightarrow> (real \<times> real) \<times> (real \<times> real)" where
  "windowToViewport self x1 y1 x2 y2 =
     (windowToViewport_priv self x1 y1, windowToViewport_priv self x2 y2)"

subsection \<open>Class \<^verbatim>\<open>Mapper\<close> of \<^verbatim>\<open>proctor_clock.py\<close>\<close>

record Mapper =
  world_pc :: rect
  viewport_pc :: rect
  factor :: real
  c_1_pc :: real
  c_2_pc :: real

text \<open>\<^verbatim>\<open>Mapper.__init__\<close>.\<close>

definition Mapper_init :: "rect \<Rightarrow> rect \<Rightarrow> error + Mapper" where
  "Mapper_init wrld vprt =
     (case wrld of (x_min_world, y_min_world, x_max_world, y_max_world) \<Rightarrow>
     (case vprt of (x_min_viewport, y_min_viewport, x_max_viewport, y_max_viewport) \<Rightarrow>
     (case float_div (x_max_viewport - x_min_viewport) (x_max_world - x_min_world) of
        Inl e \<Rightarrow> Inl e
      | Inr x_factor \<Rightarrow>
     (case float_div (y_max_viewport - y_min_viewport) (y_max_world - y_min_world) of
        Inl e \<Rightarrow> Inl e
      | Inr y_factor \<Rightarrow>
       (let fac = min x_factor y_factor;
            x_center_world = 0.5 * (x_min_world + x_max_world);
            y_center_world = 0.5 * (y_min_world + y_max_world);
            x_center_viewport = 0.5 * (x_min_viewport + x_max_viewport);
            y_center_viewport = 0.5 * (y_min_viewport + y_max_viewport)
        in Inr \<lparr> world_pc = wrld, viewport_pc = vprt, factor = fac,
                  c_1_pc = x_center_viewport - fac * x_center_world,
                  c_2_pc = y_center_viewport - fac * y_center_world \<rparr>)))))"

text \<open>\<^verbatim>\<open>Mapper._window_to_viewport\<close> and \<^verbatim>\<open>Mapper.window_to_viewport\<close>.\<close>

definition window_to_viewport_priv :: "Mapper \<Rightarrow> real \<Rightarrow> real \<Rightarrow> real \<times> real" where
  "window_to_viewport_priv self x_world y_world =
     (let x_viewport = factor self * x_world + c_1_pc self;
          y_viewport = factor self * - y_world + c_2_pc self
      in (x_viewport, y_viewport))"

definition window_to_viewport ::
  "Mapper \<Rightarrow> real \<Rightarrow> real \<Rightarrow> real \<Rightarrow> real \<Rightarrow> (real \<times> real) \<times> (real \<times> real)" where
  "window_to_viewport self x_world_1 y_world_1 x_world_2 y_world_2 =
     (let world_point_1 = window_to_viewport_priv self x_world_1 y_world_1;
          world_point_2 = window_to_viewport_priv self x_world_2 y_world_2
      in (world_point_1, world_point_2))"

subsection \<open>What the clocks read and what they issue\<close>

text \<open>
  The fields \<open>(hour, minute, second)\<close> that both redraws unpack from
  \<^verbatim>\<open>datetime.timetuple(datetime.utcnow() - self.delta)\<close>. The \<^verbatim>\<open>datetime\<close> library is not
  part of the repository, so the value it returns is an input of the model.
\<close>

type_synonym hms = "int \<times> int \<times> int"

text \<open>
  The calls a redraw makes on the toolkit, in the order it makes them. The arguments of
  \<open>create_line\<close> are the coordinates, \<^verbatim>\<open>fill\<close>, \<^verbatim>\<open>tag\<close>, and the optional \<^verbatim>\<open>width\<close> and
  \<^verbatim>\<open>arrow\<close>; those of \<open>create_oval\<close> are the coordinates and \<^verbatim>\<open>fill\<close>.
\<close>

datatype gui_call =
    canvas_delete string
  | root_title string
  | create_line "(real \<times> real) \<times> (real \<times> real)" string string "real option" "string option"
  | create_oval "(real \<times> real) \<times> (real \<times> real)" string

text \<open>The argument a handler receives: a toolkit event object, or \<^verbatim>\<open>None\<close>. Only an event
  object is truthy.\<close>

datatype event = PyNone | TkEvent

fun truthy :: "event \<Rightarrow> bool" where
  "truthy PyNone = False"
| "truthy TkEvent = True"

text \<open>The keys both constructors bind to the time handlers.\<close>

datatype key = KeyPress_f | KeyPress_v | KeyPress_F | KeyPress_V | Key_space

text \<open>Python's \<^verbatim>\<open>'%02i' % n\<close>: the decimal digits, padded with zeros to two characters; a
  negative number carries its sign and is already two characters wide.\<close>

fun digits10 :: "nat \<Rightarrow> string" where
  "digits10 n =
     (if n < 10 then [''0123456789'' ! n]
      else digits10 (n div 10) @ [''0123456789'' ! (n mod 10)])"

declare digits10.simps [simp del]

definition fmt_02i :: "int \<Rightarrow> string" where
  "fmt_02i n =
     (if n < 0 then ''-'' @ digits10 (nat (- n))
      else (let d = digits10 (nat n) in replicate (2 - length d) (CHR ''0'') @ d))"

text \<open>\<^verbatim>\<open>'%02i:%02i:%02i' % (h, m, s)\<close>.\<close>

definition fmt_title :: "hms \<Rightarrow> string" where
  "fmt_title t = (case t of (h, m, s) \<Rightarrow> fmt_02i h @ '':'' @ fmt_02i m @ '':'' @ fmt_02i s)"

subsection \<open>Class \<^verbatim>\<open>clock\<close> of \<^verbatim>\<open>Analog_Clock.py\<close>\<close>

text \<open>
  The fields the time handlers and the redraw read or write. \<open>clock_world\<close> is \<^verbatim>\<open>self.world\<close>
  and \<open>ALL_priv\<close> is \<^verbatim>\<open>self._ALL\<close>. The toolkit objects (\<^verbatim>\<open>root\<close>, \<^verbatim>\<open>canvas\<close>), the image and
  \<^verbatim>\<open>delta\<close> (used only inside the library call above) are not part of the state.
\<close>

record clock =
  clock_world :: rect
  showImage :: bool
  bgcolor :: string
  timecolor :: string
  circlecolor :: string
  circlesize :: real
  ALL_priv :: string
  pad :: real
  dMinutes :: int
  dHours :: int
  T :: mapper

text \<open>The second and third statements of \<^verbatim>\<open>painthms\<close> after the library call: the time tuple with
  the stored offsets applied.\<close>

definition displayed :: "clock \<Rightarrow> hms \<Rightarrow> hms" where
  "displayed self now =
     (case now of (h, m, s) \<Rightarrow>
        (let m' = (m + dMinutes self) mod 60;
             h' = (h + dHours self) mod 12
         in (h', m', s)))"

text \<open>\<^verbatim>\<open>clock.painthms\<close>.\<close>

definition painthms :: "clock \<Rightarrow> hms \<Rightarrow> gui_call list" where
  "painthms self now =
     (case displayed self now of (h, m, s) \<Rightarrow>
       (let out = [canvas_delete (ALL_priv self), root_title (fmt_title (h, m, s))];
            angle = pi / 2 - pi / 6 * (real_of_int h + real_of_int m / 60.0);
            x = cos angle * 0.60; y = sin angle * 0.60;
            out = out @ [create_line (windowToViewport (T self) 0 0 x y)
                           (timecolor self) (ALL_priv self) (Some (pad self / 3)) None];
            angle = pi / 2 - pi / 30 * (real_of_int m + real_of_int s / 60.0);
            x = cos angle * 0.90; y = sin angle * 0.90;
            out = out @ [create_line (windowToViewport (T self) 0 0 x y)
                           (timecolor self) (ALL_priv self) (Some (pad self / 5)) None];
            angle = pi / 2 - pi / 30 * real_of_int s;
            x = cos angle * 0.95; y = sin angle * 0.95;
            out = out @ [create_line (windowToViewport (T self) 0 0 x y)
                           (timecolor self) (ALL_priv self) None (Some ''last'')]
        in out))"

text \<open>\<^verbatim>\<open>clock.paintcircle\<close>.\<close>

definition paintcircle :: "clock \<Rightarrow> real \<Rightarrow> real \<Rightarrow> gui_call list" where
  "paintcircle self x y =
     (let ss = circlesize self / 2.0
      in [create_oval (windowToViewport (T self) (- ss + x) (- ss + y) (ss + x) (ss + y))
            (circlecolor self)])"

text \<open>\<^verbatim>\<open>clock.redraw\<close>: the twelve ticks, the hands, and the centre circle when no image is shown.\<close>

definition redraw :: "clock \<Rightarrow> hms \<Rightarrow> gui_call list" where
  "redraw self now =
     (let start = pi / 2;
          step = pi / 6
      in concat (map (\<lambda>i. let angle = start - real i * step;
                               x = cos angle; y = sin angle
                           in paintcircle self x y) [0..<12])
         @ painthms self now
         @ (if \<not> showImage self then paintcircle self 0 0 else []))"

text \<open>\<^verbatim>\<open>clock.seekTime\<close> and the handlers that call it. Each returns the updated clock and the
  calls its redraw issued.\<close>

definition seekTime :: "int \<Rightarrow> int \<Rightarrow> clock \<Rightarrow> hms \<Rightarrow> clock \<times> gui_call list" where
  "seekTime dh dm self now =
     (let self = self\<lparr>dMinutes := dMinutes self + dm\<rparr>;
          self = self\<lparr>dHours := dHours self + dh\<rparr>
      in (self, redraw self now))"

definition addMinute :: "event \<Rightarrow> clock \<Rightarrow> hms \<Rightarrow> clock \<times> gui_call list" where
  "addMinute ev self now = seekTime 0 1 self now"

definition subtractMinute :: "event \<Rightarrow> clock \<Rightarrow> hms \<Rightarrow> clock \<times> gui_call list" where
  "subtractMinute ev self now = seekTime 0 (- 1) self now"

definition addHour :: "event \<Rightarrow> clock \<Rightarrow> hms \<Rightarrow> clock \<times> gui_call list" where
  "addHour ev self now = seekTime 1 0 self now"

definition subtractHour :: "event \<Rightarrow> clock \<Rightarrow> hms \<Rightarrow> clock \<times> gui_call list" where
  "subtractHour ev self now = seekTime (- 1) 0 self now"

text \<open>\<^verbatim>\<open>clock.resetTime\<close>.\<close>

definition resetTime :: "event \<Rightarrow> clock \<Rightarrow> hms \<Rightarrow> clock \<times> gui_call list" where
  "resetTime ev self now =
     (let self = self\<lparr>dHours := 0\<rparr>;
          self = self\<lparr>dMinutes := 0\<rparr>
      in (self, redraw self now))"

text \<open>The key bindings of \<^verbatim>\<open>clock.__init__\<close>: the toolkit calls the bound handler with an event
  object.\<close>

fun dispatch :: "key \<Rightarrow> clock \<Rightarrow> hms \<Rightarrow> clock \<times> gui_call list" where
  "dispatch KeyPress_f self now = addMinute TkEvent self now"
| "dispatch KeyPress_v self now = subtractMinute TkEvent self now"
| "dispatch Key_space self now = resetTime TkEvent self now"
| "dispatch KeyPress_F self now = addHour TkEvent self now"
| "dispatch KeyPress_V self now = subtractHour TkEvent self now"

text \<open>A run of the event loop over key presses, each with the time its redraw reads.\<close>

fun run :: "(key \<times> hms) list \<Rightarrow> clock \<Rightarrow> clock \<times> gui_call list" where
  "run [] self = (self, [])"
| "run ((k, now) # rest) self =
     (case dispatch k self now of (self', out) \<Rightarrow>
        (case run rest self' of (self'', out') \<Rightarrow> (self'', out @ out')))"

subsection \<open>Class \<^verbatim>\<open>Clock\<close> of \<^verbatim>\<open>proctor_clock.py\<close>\<close>

text \<open>The same fields under the names of the second module, and \<open>secondcolor\<close>, which only it
  has. \<open>Clock_world\<close> is \<^verbatim>\<open>self.world\<close> and \<open>all_priv\<close> is \<^verbatim>\<open>self._all\<close>.\<close>

record Clock =
  Clock_world :: rect
  show_image :: bool
  bgcolor_pc :: string
  timecolor_pc :: string
  circlecolor_pc :: string
  secondcolor :: string
  circlesize_pc :: real
  all_priv :: string
  pad_pc :: real
  d_minutes :: int
  d_hours :: int
  my_mapper :: Mapper

text \<open>The offsets applied to the time tuple in \<^verbatim>\<open>paint_hms\<close>.\<close>

definition displayed_pc :: "Clock \<Rightarrow> hms \<Rightarrow> hms" where
  "displayed_pc self now =
     (case now of (hour, minute, second) \<Rightarrow>
        (let minute' = (minute + d_minutes self) mod 60;
             hour' = (hour + d_hours self) mod 12
         in (hour', minute', second)))"

text \<open>\<^verbatim>\<open>Clock.paint_hms\<close>.\<close>

definition paint_hms :: "Clock \<Rightarrow> hms \<Rightarrow> gui_call list" where
  "paint_hms self now =
     (case displayed_pc self now of (hour, minute, second) \<Rightarrow>
       (let out = [canvas_delete (all_priv self), root_title (fmt_title (hour, minute, second))];
            angle = pi / 2 - pi / 6 * (real_of_int hour + real_of_int minute / 60.0);
            x_coord = cos angle * 0.60; y_coord = sin angle * 0.60;
            out = out @ [create_line (window_to_viewport (my_mapper self) 0 0 x_coord y_coord)
                           (timecolor_pc self) (all_priv self) (Some (pad_pc self / 3)) None];
            angle = pi / 2 - pi / 30 * (real_of_int minute + real_of_int second / 60.0);
            x_coord = cos angle * 0.90; y_coord = sin angle * 0.90;
            out = out @ [create_line (window_to_viewport (my_mapper self) 0 0 x_coord y_coord)
                           (timecolor_pc self) (all_priv self) (Some (pad_pc self / 5)) None];
            angle = pi / 2 - pi / 30 * real_of_int second;
            x_coord = cos angle * 0.95; y_coord = sin angle * 0.95;
            out = out @ [create_line (window_to_viewport (my_mapper self) 0 0 x_coord y_coord)
                           (secondcolor self) (all_priv self) (Some (pad_pc self / 15)) None]
        in out))"

text \<open>\<^verbatim>\<open>Clock.paint_circle\<close>.\<close>

definition paint_circle :: "Clock \<Rightarrow> real \<Rightarrow> real \<Rightarrow> gui_call list" where
  "paint_circle self x_coord y_coord =
     (let circle_size = circlesize_pc self / 2.0
      in [create_oval (window_to_viewport (my_mapper self)
                         (- circle_size + x_coord) (- circle_size + y_coord)
                         (circle_size + x_coord) (circle_size + y_coord))
            (circlecolor_pc self)])"

text \<open>\<^verbatim>\<open>Clock.redraw\<close>.\<close>

definition redraw_pc :: "Clock \<Rightarrow> hms \<Rightarrow> gui_call list" where
  "redraw_pc self now =
     (let start = pi / 2;
          step = pi / 6
      in concat (map (\<lambda>i. let angle = start - real i * step;
                               x_coord = cos angle; y_coord = sin angle
                           in paint_circle self x_coord y_coord) [0..<12])
         @ paint_hms self now
         @ (if \<not> show_image self then paint_circle self 0 0 else []))"

text \<open>\<^verbatim>\<open>Clock.seek_time\<close> and the handlers, which act only on a truthy event.\<close>

definition seek_time :: "int \<Rightarrow> int \<Rightarrow> Clock \<Rightarrow> hms \<Rightarrow> Clock \<times> gui_call list" where
  "seek_time hour_change minute_change self now =
     (let self = self\<lparr>d_minutes := d_minutes self + minute_change\<rparr>;
          self = self\<lparr>d_hours := d_hours self + hour_change\<rparr>
      in (self, redraw_pc self now))"

definition add_minute :: "event \<Rightarrow> Clock \<Rightarrow> hms \<Rightarrow> Clock \<times> gui_call list" where
  "add_minute ev self now = (if truthy ev then seek_time 0 1 self now else (self, []))"

definition subtract_minute :: "event \<Rightarrow> Clock \<Rightarrow> hms \<Rightarrow> Clock \<times> gui_call list" where
  "subtract_minute ev self now = (if truthy ev then seek_time 0 (- 1) self now else (self, []))"

definition add_hour :: "event \<Rightarrow> Clock \<Rightarrow> hms \<Rightarrow> Clock \<times> gui_call list" where
  "add_hour ev self now = (if truthy ev then seek_time 1 0 self now else (self, []))"

definition subtract_hour :: "event \<Rightarrow> Clock \<Rightarrow> hms \<Rightarrow> Clock \<times> gui_call list" where
  "subtract_hour ev self now = (if truthy ev then seek_time (- 1) 0 self now else (self, []))"

text \<open>\<^verbatim>\<open>Clock.reset_time\<close>.\<close>

definition reset_time :: "event \<Rightarrow> Clock \<Rightarrow> hms \<Rightarrow> Clock \<times> gui_call list" where
  "reset_time ev self now =
     (if truthy ev then
        (let self = self\<lparr>d_hours := 0\<rparr>;
             self = self\<lparr>d_minutes := 0\<rparr>
         in (self, redraw_pc self now))
      else (self, []))"

text \<open>The key bindings of \<^verbatim>\<open>Clock.__init__\<close>.\<close>

fun dispatch_pc :: "key \<Rightarrow> Clock \<Rightarrow> hms \<Rightarrow> Clock \<times> gui_call list" where
  "dispatch_pc KeyPress_f self now = add_minute TkEvent self now"
| "dispatch_pc KeyPress_v self now = subtract_minute TkEvent self now"
| "dispatch_pc Key_space self now = reset_time TkEvent self now"
| "dispatch_pc KeyPress_F self now = add_hour TkEvent self now"
| "dispatch_pc KeyPress_V self now = subtract_hour TkEvent self now"

fun run_pc :: "(key \<times> hms) list \<Rightarrow> Clock \<Rightarrow> Clock \<times> gui_call list" where
  "run_pc [] self = (self, [])"
| "run_pc ((k, now) # rest) self =
     (case dispatch_pc k self now of (self', out) \<Rightarrow>
        (case run_pc rest self' of (self'', out') \<Rightarrow> (self'', out @ out')))"

text \<open>
  When a clock of the first module and one of the second are in the same state: every field
  they share has the same value, and the two mappers hold the same factor and offsets.
\<close>

definition same_state :: "clock \<Rightarrow> Clock \<Rightarrow> bool" where
  "same_state a b =
     (clock_world a = Clock_world b \<and> showImage a = show_image b \<and>
      bgcolor a = bgcolor_pc b \<and> timecolor a = timecolor_pc b \<and>
      circlecolor a = circlecolor_pc b \<and> circlesize a = circlesize_pc b \<and>
      ALL_priv a = all_priv b \<and> pad a = pad_pc b \<and>
      dMinutes a = d_minutes b \<and> dHours a = d_hours b \<and>
      world (T a) = world_pc (my_mapper b) \<and> viewport (T a) = viewport_pc (my_mapper b) \<and>
      f (T a) = factor (my_mapper b) \<and> c_1 (T a) = c_1_pc (my_mapper b) \<and>
      c_2 (T a) = c_2_pc (my_mapper b))"

text \<open>
  The two clocks with which the programs start at the default size 400 by 400 when no
  background image is available: padding \<open>400/16\<close>, viewport \<open>(25, 25, 375, 375)\<close>, colours of
  \<^verbatim>\<open>setColors\<close> without image.
\<close>

definition clock_400 :: clock where
  "clock_400 =
     \<lparr> clock_world = (- 1, - 1, 1, 1), showImage = False, bgcolor = ''#000000'',
       timecolor = ''#ffffff'', circlecolor = ''#e0e0e0'', circlesize = 0.09,
       ALL_priv = ''handles'', pad = 25, dMinutes = 0, dHours = 0,
       T = \<lparr> world = (- 1, - 1, 1, 1), viewport = (25, 25, 375, 375),
             f = 175, c_1 = 200, c_2 = 200 \<rparr> \<rparr>"

definition Clock_400 :: Clock where
  "Clock_400 =
     \<lparr> Clock_world = (- 1, - 1, 1, 1), show_image = False, bgcolor_pc = ''#000000'',
       timecolor_pc = ''#ffffff'', circlecolor_pc = ''#e0e0e0'', secondcolor = ''#ff0000'',
       circlesize_pc = 0.09, all_priv = ''handles'', pad_pc = 25, d_minutes = 0, d_hours = 0,
       my_mapper = \<lparr> world_pc = (- 1, - 1, 1, 1), viewport_pc = (25, 25, 375, 375),
                     factor = 175, c_1_pc = 200, c_2_pc = 200 \<rparr> \<rparr>"

section \<open>Properties\<close>

subsection \<open>What the two constructors return\<close>

lemma mapper_init_ok:
  assumes "x_min \<noteq> x_max" "y_min \<noteq> y_max"
  shows "mapper_init (x_min, y_min, x_max, y_max) (X_min, Y_min, X_max, Y_max) =
     Inr \<lparr> world = (x_min, y_min, x_max, y_max), viewport = (X_min, Y_min, X_max, Y_max),
           f = min ((X_max - X_min) / (x_max - x_min)) ((Y_max - Y_min) / (y_max - y_min)),
           c_1 = 0.5 * (X_min + X_max)
                 - min ((X_max - X_min) / (x_max - x_min)) ((Y_max - Y_min) / (y_max - y_min))
                   * (0.5 * (x_min + x_max)),
           c_2 = 0.5 * (Y_min + Y_max)
                 - min ((X_max - X_min) / (x_max - x_min)) ((Y_max - Y_min) / (y_max - y_min))
                   * (0.5 * (y_min + y_max)) \<rparr>"
  using assms by (simp add: mapper_init_def float_div_def Let_def)

lemma Mapper_init_ok:
  assumes "x_min \<noteq> x_max" "y_min \<noteq> y_max"
  shows "Mapper_init (x_min, y_min, x_max, y_max) (X_min, Y_min, X_max, Y_max) =
     Inr \<lparr> world_pc = (x_min, y_min, x_max, y_max), viewport_pc = (X_min, Y_min, X_max, Y_max),
           factor = min ((X_max - X_min) / (x_max - x_min)) ((Y_max - Y_min) / (y_max - y_min)),
           c_1_pc = 0.5 * (X_min + X_max)
                 - min ((X_max - X_min) / (x_max - x_min)) ((Y_max - Y_min) / (y_max - y_min))
                   * (0.5 * (x_min + x_max)),
           c_2_pc = 0.5 * (Y_min + Y_max)
                 - min ((X_max - X_min) / (x_max - x_min)) ((Y_max - Y_min) / (y_max - y_min))
                   * (0.5 * (y_min + y_max)) \<rparr>"
  using assms by (simp add: Mapper_init_def float_div_def Let_def)

lemma mapper_init_fail:
  "x_min = x_max \<or> y_min = y_max \<Longrightarrow>
   mapper_init (x_min, y_min, x_max, y_max) (X_min, Y_min, X_max, Y_max) = Inl ZeroDivisionError"
  by (auto simp add: mapper_init_def float_div_def Let_def)

lemma Mapper_init_fail:
  "x_min = x_max \<or> y_min = y_max \<Longrightarrow>
   Mapper_init (x_min, y_min, x_max, y_max) (X_min, Y_min, X_max, Y_max) = Inl ZeroDivisionError"
  by (auto simp add: Mapper_init_def float_div_def Let_def)


subsection \<open>The start states\<close>

text \<open>The mappers of the two start states are what the constructors return for the world of
  the clock and the padded viewport.\<close>

lemma clock_400_mapper: "mapper_init (- 1, - 1, 1, 1) (25, 25, 375, 375) = Inr (T clock_400)"
  by (simp add: mapper_init_ok clock_400_def)

lemma Clock_400_mapper:
  "Mapper_init (- 1, - 1, 1, 1) (25, 25, 375, 375) = Inr (my_mapper Clock_400)"
  by (simp add: Mapper_init_ok Clock_400_def)

subsection \<open>The title format\<close>

lemma digits10_digit: "n < 10 \<Longrightarrow> digits10 n = [''0123456789'' ! n]"
  by (subst digits10.simps) simp

lemma digits10_10: "digits10 10 = ''10''"
  by (subst digits10.simps) (simp add: digits10_digit)

lemma digits10_11: "digits10 11 = ''11''"
  by (subst digits10.simps) (simp add: digits10_digit)

lemma fmt_02i_hour:
  assumes "0 \<le> h" and "h < 12"
  shows "fmt_02i h \<in> set [''00'', ''01'', ''02'', ''03'', ''04'', ''05'', ''06'', ''07'',
           ''08'', ''09'', ''10'', ''11'']"
proof -
  from assms have "h = 0 \<or> h = 1 \<or> h = 2 \<or> h = 3 \<or> h = 4 \<or> h = 5 \<or> h = 6 \<or> h = 7
      \<or> h = 8 \<or> h = 9 \<or> h = 10 \<or> h = 11"
    by presburger
  then show ?thesis
    by (elim disjE) (simp_all add: fmt_02i_def digits10_digit digits10_10 digits10_11)
qed

subsection \<open>The displayed time and the hand redraw\<close>

lemma displayed_range:
  assumes "displayed self now = (h, m, s)"
  shows "0 \<le> h \<and> h < 12 \<and> 0 \<le> m \<and> m < 60"
proof -
  obtain h0 m0 s0 where now: "now = (h0, m0, s0)" by (cases now)
  from assms show ?thesis unfolding now by (auto simp add: displayed_def Let_def)
qed

lemma displayed_pc_range:
  assumes "displayed_pc self now = (h, m, s)"
  shows "0 \<le> h \<and> h < 12 \<and> 0 \<le> m \<and> m < 60"
proof -
  obtain h0 m0 s0 where now: "now = (h0, m0, s0)" by (cases now)
  from assms show ?thesis unfolding now by (auto simp add: displayed_pc_def Let_def)
qed

lemma painthms_unfold:
  assumes "displayed self now = (h, m, s)"
  shows "painthms self now =
    [canvas_delete (ALL_priv self),
     root_title (fmt_title (h, m, s)),
     create_line (windowToViewport (T self) 0 0
         (cos (pi / 2 - pi / 6 * (real_of_int h + real_of_int m / 60)) * 0.60)
         (sin (pi / 2 - pi / 6 * (real_of_int h + real_of_int m / 60)) * 0.60))
       (timecolor self) (ALL_priv self) (Some (pad self / 3)) None,
     create_line (windowToViewport (T self) 0 0
         (cos (pi / 2 - pi / 30 * (real_of_int m + real_of_int s / 60)) * 0.90)
         (sin (pi / 2 - pi / 30 * (real_of_int m + real_of_int s / 60)) * 0.90))
       (timecolor self) (ALL_priv self) (Some (pad self / 5)) None,
     create_line (windowToViewport (T self) 0 0
         (cos (pi / 2 - pi / 30 * real_of_int s) * 0.95)
         (sin (pi / 2 - pi / 30 * real_of_int s) * 0.95))
       (timecolor self) (ALL_priv self) None (Some ''last'')]"
  using assms by (simp add: painthms_def Let_def)

lemma paint_hms_unfold:
  assumes "displayed_pc self now = (h, m, s)"
  shows "paint_hms self now =
    [canvas_delete (all_priv self),
     root_title (fmt_title (h, m, s)),
     create_line (window_to_viewport (my_mapper self) 0 0
         (cos (pi / 2 - pi / 6 * (real_of_int h + real_of_int m / 60)) * 0.60)
         (sin (pi / 2 - pi / 6 * (real_of_int h + real_of_int m / 60)) * 0.60))
       (timecolor_pc self) (all_priv self) (Some (pad_pc self / 3)) None,
     create_line (window_to_viewport (my_mapper self) 0 0
         (cos (pi / 2 - pi / 30 * (real_of_int m + real_of_int s / 60)) * 0.90)
         (sin (pi / 2 - pi / 30 * (real_of_int m + real_of_int s / 60)) * 0.90))
       (timecolor_pc self) (all_priv self) (Some (pad_pc self / 5)) None,
     create_line (window_to_viewport (my_mapper self) 0 0
         (cos (pi / 2 - pi / 30 * real_of_int s) * 0.95)
         (sin (pi / 2 - pi / 30 * real_of_int s) * 0.95))
       (secondcolor self) (all_priv self) (Some (pad_pc self / 15)) None]"
  using assms by (simp add: paint_hms_def Let_def)

lemma degrees_hour:
  "(90 - 30 * (real_of_int h + real_of_int m / 60)) * pi / 180 =
     pi / 2 - pi / 6 * (real_of_int h + real_of_int m / 60)"
  by (simp add: field_simps)

lemma degrees_minute:
  "(90 - 6 * (real_of_int m + real_of_int s / 60)) * pi / 180 =
     pi / 2 - pi / 30 * (real_of_int m + real_of_int s / 60)"
  by (simp add: field_simps)

lemma degrees_second:
  "(90 - 6 * real_of_int s) * pi / 180 = pi / 2 - pi / 30 * real_of_int s"
  by (simp add: field_simps)


subsection \<open>The effect of key presses on the state\<close>

lemma seekTime_state:
  "fst (seekTime dh dm self now) =
     self\<lparr>dMinutes := dMinutes self + dm, dHours := dHours self + dh\<rparr>"
  by (simp add: seekTime_def Let_def)

lemma seek_time_state:
  "fst (seek_time dh dm self now) =
     self\<lparr>d_minutes := d_minutes self + dm, d_hours := d_hours self + dh\<rparr>"
  by (simp add: seek_time_def Let_def)

lemma dispatch_state:
  "fst (dispatch k self now) =
     (case k of
        KeyPress_f \<Rightarrow> self\<lparr>dMinutes := dMinutes self + 1\<rparr>
      | KeyPress_v \<Rightarrow> self\<lparr>dMinutes := dMinutes self - 1\<rparr>
      | KeyPress_F \<Rightarrow> self\<lparr>dHours := dHours self + 1\<rparr>
      | KeyPress_V \<Rightarrow> self\<lparr>dHours := dHours self - 1\<rparr>
      | Key_space \<Rightarrow> self\<lparr>dHours := 0, dMinutes := 0\<rparr>)"
  by (cases k)
    (simp_all add: addMinute_def subtractMinute_def addHour_def subtractHour_def
      resetTime_def seekTime_state Let_def)

lemma dispatch_pc_state:
  "fst (dispatch_pc k self now) =
     (case k of
        KeyPress_f \<Rightarrow> self\<lparr>d_minutes := d_minutes self + 1\<rparr>
      | KeyPress_v \<Rightarrow> self\<lparr>d_minutes := d_minutes self - 1\<rparr>
      | KeyPress_F \<Rightarrow> self\<lparr>d_hours := d_hours self + 1\<rparr>
      | KeyPress_V \<Rightarrow> self\<lparr>d_hours := d_hours self - 1\<rparr>
      | Key_space \<Rightarrow> self\<lparr>d_hours := 0, d_minutes := 0\<rparr>)"
  by (cases k)
    (simp_all add: add_minute_def subtract_minute_def add_hour_def subtract_hour_def
      reset_time_def seek_time_state Let_def)

lemma run_Cons_state: "fst (run ((k, now) # rest) self) = fst (run rest (fst (dispatch k self now)))"
  by (simp add: split_beta)

lemma run_pc_Cons_state:
  "fst (run_pc ((k, now) # rest) self) = fst (run_pc rest (fst (dispatch_pc k self now)))"
  by (simp add: split_beta)

lemma run_frame: "\<exists>dm dh. fst (run ks self) = self\<lparr>dMinutes := dm, dHours := dh\<rparr>"
proof (induction ks arbitrary: self)
  case Nil
  have "self = self\<lparr>dMinutes := dMinutes self, dHours := dHours self\<rparr>" by simp
  then show ?case by (metis fst_conv run.simps(1))
next
  case (Cons p ks)
  obtain k now where p: "p = (k, now)" by (cases p)
  obtain dm dh where
    step: "fst (run ks (fst (dispatch k self now))) =
             (fst (dispatch k self now))\<lparr>dMinutes := dm, dHours := dh\<rparr>"
    using Cons.IH by blast
  have "fst (run (p # ks) self) = (fst (dispatch k self now))\<lparr>dMinutes := dm, dHours := dh\<rparr>"
    unfolding p run_Cons_state by (rule step)
  also have "\<dots> = self\<lparr>dMinutes := dm, dHours := dh\<rparr>"
    unfolding dispatch_state by (cases k) simp_all
  finally show ?case by blast
qed

lemma run_pc_frame: "\<exists>dm dh. fst (run_pc ks self) = self\<lparr>d_minutes := dm, d_hours := dh\<rparr>"
proof (induction ks arbitrary: self)
  case Nil
  have "self = self\<lparr>d_minutes := d_minutes self, d_hours := d_hours self\<rparr>" by simp
  then show ?case by (metis fst_conv run_pc.simps(1))
next
  case (Cons p ks)
  obtain k now where p: "p = (k, now)" by (cases p)
  obtain dm dh where
    step: "fst (run_pc ks (fst (dispatch_pc k self now))) =
             (fst (dispatch_pc k self now))\<lparr>d_minutes := dm, d_hours := dh\<rparr>"
    using Cons.IH by blast
  have "fst (run_pc (p # ks) self) =
          (fst (dispatch_pc k self now))\<lparr>d_minutes := dm, d_hours := dh\<rparr>"
    unfolding p run_pc_Cons_state by (rule step)
  also have "\<dots> = self\<lparr>d_minutes := dm, d_hours := dh\<rparr>"
    unfolding dispatch_pc_state by (cases k) simp_all
  finally show ?case by blast
qed

lemma run_add_minutes:
  "fst (run (map (Pair KeyPress_f) ts) self) =
     self\<lparr>dMinutes := dMinutes self + int (length ts)\<rparr>"
proof (induction ts arbitrary: self)
  case Nil
  show ?case by simp
next
  case (Cons t ts)
  show ?case
    unfolding list.map run_Cons_state Cons.IH dispatch_state by simp
qed

lemma run_pc_add_minutes:
  "fst (run_pc (map (Pair KeyPress_f) ts) self) =
     self\<lparr>d_minutes := d_minutes self + int (length ts)\<rparr>"
proof (induction ts arbitrary: self)
  case Nil
  show ?case by simp
next
  case (Cons t ts)
  show ?case
    unfolding list.map run_pc_Cons_state Cons.IH dispatch_pc_state by simp
qed


lemma minute_before_zero:
  assumes "(x :: int) mod 60 = 0"
  shows "(x - 1) mod 60 = 59"
proof -
  have "(x - 1) mod 60 = (x mod 60 - 1) mod 60"
    by (simp add: mod_diff_left_eq)
  also have "\<dots> = 59"
    unfolding assms by simp
  finally show ?thesis .
qed


subsection \<open>Clocks in the same state\<close>

lemma windowToViewport_same:
  assumes "f m = factor M" and "c_1 m = c_1_pc M" and "c_2 m = c_2_pc M"
  shows "windowToViewport m x1 y1 x2 y2 = window_to_viewport M x1 y1 x2 y2"
  using assms
  by (simp add: windowToViewport_def windowToViewport_priv_def window_to_viewport_def
      window_to_viewport_priv_def Let_def)

lemma same_state_mapper:
  assumes "same_state a b"
  shows "windowToViewport (T a) x1 y1 x2 y2 = window_to_viewport (my_mapper b) x1 y1 x2 y2"
  using assms by (intro windowToViewport_same) (simp_all add: same_state_def)

lemma same_state_displayed:
  assumes "same_state a b"
  shows "displayed_pc b now = displayed a now"
proof -
  obtain h0 m0 s0 where now: "now = (h0, m0, s0)" by (cases now)
  from assms show ?thesis
    unfolding now by (simp add: same_state_def displayed_def displayed_pc_def)
qed

lemma same_state_paintcircle:
  assumes "same_state a b"
  shows "paint_circle b x y = paintcircle a x y"
  unfolding paint_circle_def paintcircle_def same_state_mapper [OF assms]
  using assms by (simp add: same_state_def)

lemma redraw_split:
  assumes "same_state a b"
  shows "\<exists>ticks centre. length ticks = 12
           \<and> redraw a now = ticks @ painthms a now @ centre
           \<and> redraw_pc b now = ticks @ paint_hms b now @ centre"
proof -
  let ?tick = "\<lambda>i. create_oval
      (windowToViewport (T a)
         (- (circlesize a / 2) + cos (pi / 2 - real i * (pi / 6)))
         (- (circlesize a / 2) + sin (pi / 2 - real i * (pi / 6)))
         (circlesize a / 2 + cos (pi / 2 - real i * (pi / 6)))
         (circlesize a / 2 + sin (pi / 2 - real i * (pi / 6))))
      (circlecolor a)"
  let ?centre = "if \<not> showImage a then paintcircle a 0 0 else []"
  have si: "show_image b = showImage a" using assms by (simp add: same_state_def)
  have ra: "redraw a now = map ?tick [0..<12] @ painthms a now @ ?centre"
    unfolding redraw_def paintcircle_def Let_def by (simp add: map_concat o_def)
  have rb: "redraw_pc b now = map ?tick [0..<12] @ paint_hms b now @ ?centre"
    unfolding redraw_pc_def same_state_paintcircle [OF assms] si
    unfolding paintcircle_def Let_def by (simp add: map_concat o_def)
  have len: "length (map ?tick [0..<12]) = 12" by simp
  from len ra rb show ?thesis by blast
qed

subsection \<open>The mapper\<close>

text \<open>
  Claim C1. For a world rectangle and a viewport rectangle with \<open>min < max\<close> on both axes,
  both constructors succeed; the factor is the smaller of the two quotients of the extents,
  the offsets are the viewport centre minus the factor times the world centre, and a world
  point \<open>(x, y)\<close> is mapped to \<open>(f * x + c_1, - f * y + c_2)\<close>. The result is a function of the
  two rectangles and the point alone.
\<close>

theorem mapper_formula:
  assumes "x_min < x_max" and "y_min < y_max" and "X_min < X_max" and "Y_min < Y_max"
  shows "\<exists>m M. mapper_init (x_min, y_min, x_max, y_max) (X_min, Y_min, X_max, Y_max) = Inr m
          \<and> Mapper_init (x_min, y_min, x_max, y_max) (X_min, Y_min, X_max, Y_max) = Inr M
          \<and> f m = min ((X_max - X_min) / (x_max - x_min)) ((Y_max - Y_min) / (y_max - y_min))
          \<and> factor M = min ((X_max - X_min) / (x_max - x_min)) ((Y_max - Y_min) / (y_max - y_min))
          \<and> c_1 m = (X_min + X_max) / 2 - f m * ((x_min + x_max) / 2)
          \<and> c_2 m = (Y_min + Y_max) / 2 - f m * ((y_min + y_max) / 2)
          \<and> c_1_pc M = c_1 m \<and> c_2_pc M = c_2 m
          \<and> windowToViewport_priv m x y = (f m * x + c_1 m, - f m * y + c_2 m)
          \<and> window_to_viewport_priv M x y = (factor M * x + c_1_pc M, - factor M * y + c_2_pc M)"
  using assms(1,2)
  by (simp add: mapper_init_ok Mapper_init_ok windowToViewport_priv_def
      window_to_viewport_priv_def Let_def)

text \<open>
  The theorem at the world of the clock and the viewport of a 400 by 400 canvas.
\<close>

theorem mapper_formula_witness:
  "(- 1 :: real) < 1 \<and> (25 :: real) < 375 \<and>
   (\<exists>m M. mapper_init (- 1, - 1, 1, 1) (25, 25, 375, 375) = Inr m
      \<and> Mapper_init (- 1, - 1, 1, 1) (25, 25, 375, 375) = Inr M
      \<and> f m = 175 \<and> factor M = 175 \<and> c_1 m = 200 \<and> c_2 m = 200
      \<and> windowToViewport_priv m 1 1 = (375, 25)
      \<and> window_to_viewport_priv M 1 1 = (375, 25))"
  using mapper_formula [of "- 1" 1 "- 1" 1 25 375 25 375 1 1] by auto

text \<open>
  Where the centre of a non-degenerate world rectangle goes: its abscissa reaches the
  abscissa of the viewport centre, its ordinate misses the ordinate of the viewport centre
  by the factor times \<open>y_min + y_max\<close>.
\<close>

lemma world_center_image:
  assumes "x_min \<noteq> x_max" and "y_min \<noteq> y_max"
    and "mapper_init (x_min, y_min, x_max, y_max) (X_min, Y_min, X_max, Y_max) = Inr m"
  shows "windowToViewport_priv m ((x_min + x_max) / 2) ((y_min + y_max) / 2) =
           ((X_min + X_max) / 2, (Y_min + Y_max) / 2 - f m * (y_min + y_max))"
  using assms by (auto simp add: mapper_init_ok windowToViewport_priv_def Let_def algebra_simps)

text \<open>
  Claim C2. The claim is that the centre of the world rectangle is mapped to the centre of the
  viewport rectangle. On the world \<open>(0, 0, 2, 2)\<close> and the viewport \<open>(0, 0, 4, 4)\<close> both
  modules map the world centre \<open>(1, 1)\<close> to \<open>(2, - 2)\<close>, which is not the viewport centre
  \<open>(2, 2)\<close>: the ordinate is negated by the mapping, the offset \<open>c_2\<close> is computed as if it
  were not.
\<close>

theorem center_maps_off_center:
  "mapper_init (0, 0, 2, 2) (0, 0, 4, 4) =
     Inr \<lparr> world = (0, 0, 2, 2), viewport = (0, 0, 4, 4), f = 2, c_1 = 0, c_2 = 0 \<rparr>
   \<and> windowToViewport_priv
        \<lparr> world = (0, 0, 2, 2), viewport = (0, 0, 4, 4), f = 2, c_1 = 0, c_2 = 0 \<rparr> 1 1
      = (2, - 2)
   \<and> Mapper_init (0, 0, 2, 2) (0, 0, 4, 4) =
     Inr \<lparr> world_pc = (0, 0, 2, 2), viewport_pc = (0, 0, 4, 4), factor = 2,
           c_1_pc = 0, c_2_pc = 0 \<rparr>
   \<and> window_to_viewport_priv
        \<lparr> world_pc = (0, 0, 2, 2), viewport_pc = (0, 0, 4, 4), factor = 2,
          c_1_pc = 0, c_2_pc = 0 \<rparr> 1 1
      = (2, - 2)"
  by (simp add: mapper_init_ok Mapper_init_ok windowToViewport_priv_def
      window_to_viewport_priv_def Let_def)

text \<open>
  Claim C3, as stated, fails: a viewport of zero width is accepted by both constructors,
  which return a mapper of factor zero.
\<close>

theorem degenerate_viewport_accepted:
  "mapper_init (- 1, - 1, 1, 1) (0, 0, 0, 400) =
     Inr \<lparr> world = (- 1, - 1, 1, 1), viewport = (0, 0, 0, 400), f = 0, c_1 = 0, c_2 = 200 \<rparr>
   \<and> Mapper_init (- 1, - 1, 1, 1) (0, 0, 0, 400) =
     Inr \<lparr> world_pc = (- 1, - 1, 1, 1), viewport_pc = (0, 0, 0, 400), factor = 0,
           c_1_pc = 0, c_2_pc = 200 \<rparr>"
  by (simp add: mapper_init_ok Mapper_init_ok)

text \<open>
  Claim C3, amended. Construction raises the division error when the world rectangle has
  zero width or zero height, whatever the viewport; when the world rectangle has neither,
  construction returns a mapper, whatever the viewport.
\<close>

theorem mapper_fails_iff_world_degenerate:
  "(x_max = x_min \<or> y_max = y_min \<longrightarrow>
      mapper_init (x_min, y_min, x_max, y_max) vprt = Inl ZeroDivisionError
      \<and> Mapper_init (x_min, y_min, x_max, y_max) vprt = Inl ZeroDivisionError)
   \<and> (x_max \<noteq> x_min \<and> y_max \<noteq> y_min \<longrightarrow>
      (\<exists>m M. mapper_init (x_min, y_min, x_max, y_max) vprt = Inr m
            \<and> Mapper_init (x_min, y_min, x_max, y_max) vprt = Inr M))"
proof (cases vprt)
  case (fields X_min Y_min X_max Y_max)
  have bad: "mapper_init (x_min, y_min, x_max, y_max) vprt = Inl ZeroDivisionError
      \<and> Mapper_init (x_min, y_min, x_max, y_max) vprt = Inl ZeroDivisionError"
    if "x_max = x_min \<or> y_max = y_min"
  proof -
    from that have deg: "x_min = x_max \<or> y_min = y_max" by auto
    show ?thesis
      unfolding fields using mapper_init_fail [OF deg] Mapper_init_fail [OF deg] by simp
  qed
  have good: "\<exists>m M. mapper_init (x_min, y_min, x_max, y_max) vprt = Inr m
            \<and> Mapper_init (x_min, y_min, x_max, y_max) vprt = Inr M"
    if "x_max \<noteq> x_min \<and> y_max \<noteq> y_min"
  proof -
    from that have ne: "x_min \<noteq> x_max" "y_min \<noteq> y_max" by auto
    show ?thesis
      unfolding fields using mapper_init_ok [OF ne] Mapper_init_ok [OF ne] by simp
  qed
  from bad good show ?thesis by blast
qed

text \<open>
  The theorem at a world of zero width, and at the world of the clock with a viewport of zero
  width.
\<close>

theorem mapper_fails_iff_world_degenerate_witness:
  "((1::real) = 1 \<or> (1::real) = - 1)
   \<and> mapper_init (1, - 1, 1, 1) (0, 0, 400, 400) = Inl ZeroDivisionError
   \<and> Mapper_init (1, - 1, 1, 1) (0, 0, 400, 400) = Inl ZeroDivisionError
   \<and> (1::real) \<noteq> - 1
   \<and> (\<exists>m M. mapper_init (- 1, - 1, 1, 1) (0, 0, 0, 400) = Inr m
           \<and> Mapper_init (- 1, - 1, 1, 1) (0, 0, 0, 400) = Inr M)"
  using mapper_fails_iff_world_degenerate [of 1 1 1 "- 1" "(0, 0, 400, 400)"]
    mapper_fails_iff_world_degenerate [of 1 "- 1" 1 "- 1" "(0, 0, 0, 400)"]
  by simp

text \<open>
  Claim C4. For rectangles with positive extents the mapping of a point is affine with
  non-zero coefficients, and it has a left inverse: some function returns every world point
  from its image.
\<close>

theorem mapper_affine_invertible:
  assumes "x_min < x_max" and "y_min < y_max" and "X_min < X_max" and "Y_min < Y_max"
  shows "\<exists>m M. mapper_init (x_min, y_min, x_max, y_max) (X_min, Y_min, X_max, Y_max) = Inr m
          \<and> Mapper_init (x_min, y_min, x_max, y_max) (X_min, Y_min, X_max, Y_max) = Inr M
          \<and> (\<exists>a b c d. a \<noteq> 0 \<and> b \<noteq> 0
                \<and> (\<forall>x y. windowToViewport_priv m x y = (a * x + c, b * y + d))
                \<and> (\<forall>x y. window_to_viewport_priv M x y = (a * x + c, b * y + d)))
          \<and> (\<exists>g. (\<forall>x y. g (windowToViewport_priv m x y) = (x, y))
                \<and> (\<forall>x y. g (window_to_viewport_priv M x y) = (x, y)))"
proof -
  define fac where
    "fac = min ((X_max - X_min) / (x_max - x_min)) ((Y_max - Y_min) / (y_max - y_min))"
  define c1 where "c1 = 0.5 * (X_min + X_max) - fac * (0.5 * (x_min + x_max))"
  define c2 where "c2 = 0.5 * (Y_min + Y_max) - fac * (0.5 * (y_min + y_max))"
  let ?m = "\<lparr> world = (x_min, y_min, x_max, y_max), viewport = (X_min, Y_min, X_max, Y_max),
              f = fac, c_1 = c1, c_2 = c2 \<rparr>"
  let ?M = "\<lparr> world_pc = (x_min, y_min, x_max, y_max),
              viewport_pc = (X_min, Y_min, X_max, Y_max),
              factor = fac, c_1_pc = c1, c_2_pc = c2 \<rparr>"
  have ne: "x_min \<noteq> x_max" "y_min \<noteq> y_max" using assms by auto
  have m: "mapper_init (x_min, y_min, x_max, y_max) (X_min, Y_min, X_max, Y_max) = Inr ?m"
    unfolding c1_def c2_def fac_def using ne by (rule mapper_init_ok)
  have M: "Mapper_init (x_min, y_min, x_max, y_max) (X_min, Y_min, X_max, Y_max) = Inr ?M"
    unfolding c1_def c2_def fac_def using ne by (rule Mapper_init_ok)
  have pos: "0 < fac" unfolding fac_def using assms by simp
  have wtv: "windowToViewport_priv ?m x y = (fac * x + c1, - fac * y + c2)" for x y
    by (simp add: windowToViewport_priv_def Let_def)
  have WTV: "window_to_viewport_priv ?M x y = (fac * x + c1, - fac * y + c2)" for x y
    by (simp add: window_to_viewport_priv_def Let_def)
  have aff: "\<exists>a b c d. a \<noteq> 0 \<and> b \<noteq> 0
                \<and> (\<forall>x y. windowToViewport_priv ?m x y = (a * x + c, b * y + d))
                \<and> (\<forall>x y. window_to_viewport_priv ?M x y = (a * x + c, b * y + d))"
  proof (intro exI conjI allI)
    show "fac \<noteq> 0" using pos by simp
    show "- fac \<noteq> 0" using pos by simp
    show "windowToViewport_priv ?m x y = (fac * x + c1, - fac * y + c2)" for x y
      by (rule wtv)
    show "window_to_viewport_priv ?M x y = (fac * x + c1, - fac * y + c2)" for x y
      by (rule WTV)
  qed
  let ?g = "\<lambda>p. ((fst p - c1) / fac, (c2 - snd p) / fac)"
  have inv: "\<exists>g. (\<forall>x y. g (windowToViewport_priv ?m x y) = (x, y))
                \<and> (\<forall>x y. g (window_to_viewport_priv ?M x y) = (x, y))"
  proof (intro exI [of _ ?g] conjI allI)
    show "?g (windowToViewport_priv ?m x y) = (x, y)" for x y
      unfolding wtv using pos by simp
    show "?g (window_to_viewport_priv ?M x y) = (x, y)" for x y
      unfolding WTV using pos by simp
  qed
  show ?thesis
    apply (rule exI [of _ ?m])
    apply (rule exI [of _ ?M])
    apply (rule conjI, rule m)
    apply (rule conjI, rule M)
    apply (rule conjI, rule aff)
    apply (rule inv)
    done
qed

text \<open>
  The theorem at the world of the clock and the viewport \<open>(0, 0, 400, 400)\<close>.
\<close>

theorem mapper_affine_invertible_witness:
  "(- 1 :: real) < 1 \<and> (0 :: real) < 400 \<and>
   (\<exists>m M. mapper_init (- 1, - 1, 1, 1) (0, 0, 400, 400) = Inr m
          \<and> Mapper_init (- 1, - 1, 1, 1) (0, 0, 400, 400) = Inr M
          \<and> (\<exists>a b c d. a \<noteq> 0 \<and> b \<noteq> 0
                \<and> (\<forall>x y. windowToViewport_priv m x y = (a * x + c, b * y + d))
                \<and> (\<forall>x y. window_to_viewport_priv M x y = (a * x + c, b * y + d)))
          \<and> (\<exists>g. (\<forall>x y. g (windowToViewport_priv m x y) = (x, y))
                \<and> (\<forall>x y. g (window_to_viewport_priv M x y) = (x, y))))"
  using mapper_affine_invertible [of "- 1" 1 "- 1" 1 0 400 0 400] by simp

text \<open>
  Claim C5, as stated, fails: with world \<open>(- 1, - 1, 1, 1)\<close> and viewport
  \<open>(0, 0, 400, 400)\<close> the factor is 200, not 1.
\<close>

theorem scale_factor_is_not_one:
  "map_sum id f (mapper_init (- 1, - 1, 1, 1) (0, 0, 400, 400)) = Inr 200
   \<and> map_sum id f (mapper_init (- 1, - 1, 1, 1) (0, 0, 400, 400)) \<noteq> Inr 1
   \<and> map_sum id factor (Mapper_init (- 1, - 1, 1, 1) (0, 0, 400, 400)) = Inr 200
   \<and> map_sum id factor (Mapper_init (- 1, - 1, 1, 1) (0, 0, 400, 400)) \<noteq> Inr 1"
  by (simp add: mapper_init_ok Mapper_init_ok)

text \<open>
  Claim C5, amended. With that world and that viewport the factor is 200 and the world point
  \<open>(1, 0)\<close> is mapped to \<open>(400, 200)\<close>.
\<close>

theorem clock_world_400_mapping:
  "\<exists>m M. mapper_init (- 1, - 1, 1, 1) (0, 0, 400, 400) = Inr m
        \<and> Mapper_init (- 1, - 1, 1, 1) (0, 0, 400, 400) = Inr M
        \<and> f m = 200 \<and> factor M = 200
        \<and> windowToViewport_priv m 1 0 = (400, 200)
        \<and> window_to_viewport_priv M 1 0 = (400, 200)"
  by (simp add: mapper_init_ok Mapper_init_ok windowToViewport_priv_def
      window_to_viewport_priv_def Let_def)

subsection \<open>The hands\<close>

text \<open>
  Claim C6. With \<open>(h, m, s)\<close> the displayed time, the third, fourth and fifth call of the hand
  redraw are the lines from the mapped origin to the mapped endpoints of the hour hand (length
  0.60 at \<open>90 - 30 * (h + m / 60)\<close> degrees), the minute hand (length 0.90 at
  \<open>90 - 6 * (m + s / 60)\<close> degrees) and the second hand (length 0.95 at \<open>90 - 6 * s\<close>
  degrees), an endpoint being the length times the cosine and sine of the angle. The
  displayed hour lies in \<open>[0, 12)\<close> and the displayed minute in \<open>[0, 60)\<close>. The hour angle at 3:00
  and the second angle at second 15 are both zero, so both hands point to the right. Cosine,
  sine and \<open>pi\<close> are those of the reals.
\<close>

theorem hand_endpoints:
  assumes "displayed a now = (h, m, s)" and "displayed_pc b now = (h, m, s)"
  shows "painthms a now ! 2 =
           create_line (windowToViewport (T a) 0 0
               (0.60 * cos ((90 - 30 * (real_of_int h + real_of_int m / 60)) * pi / 180))
               (0.60 * sin ((90 - 30 * (real_of_int h + real_of_int m / 60)) * pi / 180)))
             (timecolor a) (ALL_priv a) (Some (pad a / 3)) None
       \<and> painthms a now ! 3 =
           create_line (windowToViewport (T a) 0 0
               (0.90 * cos ((90 - 6 * (real_of_int m + real_of_int s / 60)) * pi / 180))
               (0.90 * sin ((90 - 6 * (real_of_int m + real_of_int s / 60)) * pi / 180)))
             (timecolor a) (ALL_priv a) (Some (pad a / 5)) None
       \<and> painthms a now ! 4 =
           create_line (windowToViewport (T a) 0 0
               (0.95 * cos ((90 - 6 * real_of_int s) * pi / 180))
               (0.95 * sin ((90 - 6 * real_of_int s) * pi / 180)))
             (timecolor a) (ALL_priv a) None (Some ''last'')
       \<and> paint_hms b now ! 2 =
           create_line (window_to_viewport (my_mapper b) 0 0
               (0.60 * cos ((90 - 30 * (real_of_int h + real_of_int m / 60)) * pi / 180))
               (0.60 * sin ((90 - 30 * (real_of_int h + real_of_int m / 60)) * pi / 180)))
             (timecolor_pc b) (all_priv b) (Some (pad_pc b / 3)) None
       \<and> paint_hms b now ! 3 =
           create_line (window_to_viewport (my_mapper b) 0 0
               (0.90 * cos ((90 - 6 * (real_of_int m + real_of_int s / 60)) * pi / 180))
               (0.90 * sin ((90 - 6 * (real_of_int m + real_of_int s / 60)) * pi / 180)))
             (timecolor_pc b) (all_priv b) (Some (pad_pc b / 5)) None
       \<and> paint_hms b now ! 4 =
           create_line (window_to_viewport (my_mapper b) 0 0
               (0.95 * cos ((90 - 6 * real_of_int s) * pi / 180))
               (0.95 * sin ((90 - 6 * real_of_int s) * pi / 180)))
             (secondcolor b) (all_priv b) (Some (pad_pc b / 15)) None
       \<and> 0 \<le> h \<and> h < 12 \<and> 0 \<le> m \<and> m < 60
       \<and> (90 - 30 * (real_of_int 3 + real_of_int 0 / 60)) * pi / 180 = 0
       \<and> (90 - 6 * real_of_int 15) * pi / 180 = 0
       \<and> (h = 3 \<and> m = 0 \<and> s = 15 \<longrightarrow>
            painthms a now ! 2 = create_line (windowToViewport (T a) 0 0 0.60 0)
                (timecolor a) (ALL_priv a) (Some (pad a / 3)) None
          \<and> painthms a now ! 4 = create_line (windowToViewport (T a) 0 0 0.95 0)
                (timecolor a) (ALL_priv a) None (Some ''last'')
          \<and> paint_hms b now ! 2 = create_line (window_to_viewport (my_mapper b) 0 0 0.60 0)
                (timecolor_pc b) (all_priv b) (Some (pad_pc b / 3)) None
          \<and> paint_hms b now ! 4 = create_line (window_to_viewport (my_mapper b) 0 0 0.95 0)
                (secondcolor b) (all_priv b) (Some (pad_pc b / 15)) None)"
proof -
  note deg = degrees_hour degrees_minute degrees_second
  have a2: "painthms a now ! 2 =
           create_line (windowToViewport (T a) 0 0
               (0.60 * cos ((90 - 30 * (real_of_int h + real_of_int m / 60)) * pi / 180))
               (0.60 * sin ((90 - 30 * (real_of_int h + real_of_int m / 60)) * pi / 180)))
             (timecolor a) (ALL_priv a) (Some (pad a / 3)) None"
    unfolding deg painthms_unfold [OF assms(1)] by (simp add: mult.commute)
  have a3: "painthms a now ! 3 =
           create_line (windowToViewport (T a) 0 0
               (0.90 * cos ((90 - 6 * (real_of_int m + real_of_int s / 60)) * pi / 180))
               (0.90 * sin ((90 - 6 * (real_of_int m + real_of_int s / 60)) * pi / 180)))
             (timecolor a) (ALL_priv a) (Some (pad a / 5)) None"
    unfolding deg painthms_unfold [OF assms(1)] by (simp add: mult.commute)
  have a4: "painthms a now ! 4 =
           create_line (windowToViewport (T a) 0 0
               (0.95 * cos ((90 - 6 * real_of_int s) * pi / 180))
               (0.95 * sin ((90 - 6 * real_of_int s) * pi / 180)))
             (timecolor a) (ALL_priv a) None (Some ''last'')"
    unfolding deg painthms_unfold [OF assms(1)] by (simp add: mult.commute)
  have b2: "paint_hms b now ! 2 =
           create_line (window_to_viewport (my_mapper b) 0 0
               (0.60 * cos ((90 - 30 * (real_of_int h + real_of_int m / 60)) * pi / 180))
               (0.60 * sin ((90 - 30 * (real_of_int h + real_of_int m / 60)) * pi / 180)))
             (timecolor_pc b) (all_priv b) (Some (pad_pc b / 3)) None"
    unfolding deg paint_hms_unfold [OF assms(2)] by (simp add: mult.commute)
  have b3: "paint_hms b now ! 3 =
           create_line (window_to_viewport (my_mapper b) 0 0
               (0.90 * cos ((90 - 6 * (real_of_int m + real_of_int s / 60)) * pi / 180))
               (0.90 * sin ((90 - 6 * (real_of_int m + real_of_int s / 60)) * pi / 180)))
             (timecolor_pc b) (all_priv b) (Some (pad_pc b / 5)) None"
    unfolding deg paint_hms_unfold [OF assms(2)] by (simp add: mult.commute)
  have b4: "paint_hms b now ! 4 =
           create_line (window_to_viewport (my_mapper b) 0 0
               (0.95 * cos ((90 - 6 * real_of_int s) * pi / 180))
               (0.95 * sin ((90 - 6 * real_of_int s) * pi / 180)))
             (secondcolor b) (all_priv b) (Some (pad_pc b / 15)) None"
    unfolding deg paint_hms_unfold [OF assms(2)] by (simp add: mult.commute)
  have rng: "0 \<le> h \<and> h < 12 \<and> 0 \<le> m \<and> m < 60"
    using displayed_range [OF assms(1)] .
  have z1: "(90 - 30 * (real_of_int 3 + real_of_int 0 / 60)) * pi / 180 = 0" by simp
  have z2: "(90 - 6 * real_of_int 15) * pi / 180 = 0" by simp
  have right: "painthms a now ! 2 = create_line (windowToViewport (T a) 0 0 0.60 0)
                (timecolor a) (ALL_priv a) (Some (pad a / 3)) None
          \<and> painthms a now ! 4 = create_line (windowToViewport (T a) 0 0 0.95 0)
                (timecolor a) (ALL_priv a) None (Some ''last'')
          \<and> paint_hms b now ! 2 = create_line (window_to_viewport (my_mapper b) 0 0 0.60 0)
                (timecolor_pc b) (all_priv b) (Some (pad_pc b / 3)) None
          \<and> paint_hms b now ! 4 = create_line (window_to_viewport (my_mapper b) 0 0 0.95 0)
                (secondcolor b) (all_priv b) (Some (pad_pc b / 15)) None"
    if "h = 3 \<and> m = 0 \<and> s = 15"
  proof -
    from that have h: "h = 3" and m: "m = 0" and s: "s = 15" by auto
    show ?thesis
      unfolding a2 a4 b2 b4 unfolding h m s z1 z2 by simp
  qed
  show ?thesis
    apply (rule conjI, rule a2)
    apply (rule conjI, rule a3)
    apply (rule conjI, rule a4)
    apply (rule conjI, rule b2)
    apply (rule conjI, rule b3)
    apply (rule conjI, rule b4)
    apply (rule conjI, rule rng [THEN conjunct1])
    apply (rule conjI, rule rng [THEN conjunct2, THEN conjunct1])
    apply (rule conjI, rule rng [THEN conjunct2, THEN conjunct2, THEN conjunct1])
    apply (rule conjI, rule rng [THEN conjunct2, THEN conjunct2, THEN conjunct2])
    apply (rule conjI, rule z1)
    apply (rule conjI, rule z2)
    apply (rule impI, erule right)
    done
qed

text \<open>
  The theorem at system time 15:00:15 on the clocks of the default size.
\<close>

theorem hand_endpoints_witness:
  "displayed clock_400 (15, 0, 15) = (3, 0, 15) \<and> displayed_pc Clock_400 (15, 0, 15) = (3, 0, 15)
   \<and> painthms clock_400 (15, 0, 15) ! 2 =
       create_line ((200, 200), (305, 200)) ''#ffffff'' ''handles'' (Some (25 / 3)) None
   \<and> painthms clock_400 (15, 0, 15) ! 4 =
       create_line ((200, 200), (366.25, 200)) ''#ffffff'' ''handles'' None (Some ''last'')
   \<and> paint_hms Clock_400 (15, 0, 15) ! 2 =
       create_line ((200, 200), (305, 200)) ''#ffffff'' ''handles'' (Some (25 / 3)) None
   \<and> paint_hms Clock_400 (15, 0, 15) ! 4 =
       create_line ((200, 200), (366.25, 200)) ''#ff0000'' ''handles'' (Some (25 / 15)) None"
proof -
  have d: "displayed clock_400 (15, 0, 15) = (3, 0, 15)"
    by (simp add: displayed_def clock_400_def Let_def)
  have e: "displayed_pc Clock_400 (15, 0, 15) = (3, 0, 15)"
    by (simp add: displayed_pc_def Clock_400_def Let_def)
  have wa: "windowToViewport (T clock_400) 0 0 x 0 = ((200, 200), (175 * x + 200, 200))" for x
    by (simp add: windowToViewport_def windowToViewport_priv_def clock_400_def Let_def)
  have wb: "window_to_viewport (my_mapper Clock_400) 0 0 x 0 = ((200, 200), (175 * x + 200, 200))"
    for x
    by (simp add: window_to_viewport_def window_to_viewport_priv_def Clock_400_def Let_def)
  have fa: "timecolor clock_400 = ''#ffffff''" "ALL_priv clock_400 = ''handles''"
    "pad clock_400 = 25"
    by (simp_all add: clock_400_def)
  have fb: "timecolor_pc Clock_400 = ''#ffffff''" "all_priv Clock_400 = ''handles''"
    "pad_pc Clock_400 = 25" "secondcolor Clock_400 = ''#ff0000''"
    by (simp_all add: Clock_400_def)
  from hand_endpoints [OF d e] d e show ?thesis
    by (simp add: wa wb fa fb)
qed

subsection \<open>The time handlers\<close>

text \<open>
  Claim C7. After sixty presses of the advance-minute key, whatever times the sixty redraws
  read, the displayed time of any system time is what it was before: the minute is the same
  and the hour is unchanged. The stored hour offset is untouched and the stored minute offset
  has grown by sixty.
\<close>

theorem advance_minute_60_times:
  assumes "length ts = 60"
  shows "displayed (fst (run (map (Pair KeyPress_f) ts) a)) now = displayed a now
       \<and> dHours (fst (run (map (Pair KeyPress_f) ts) a)) = dHours a
       \<and> dMinutes (fst (run (map (Pair KeyPress_f) ts) a)) = dMinutes a + 60
       \<and> painthms (fst (run (map (Pair KeyPress_f) ts) a)) now = painthms a now
       \<and> displayed_pc (fst (run_pc (map (Pair KeyPress_f) ts) b)) now = displayed_pc b now
       \<and> d_hours (fst (run_pc (map (Pair KeyPress_f) ts) b)) = d_hours b
       \<and> d_minutes (fst (run_pc (map (Pair KeyPress_f) ts) b)) = d_minutes b + 60
       \<and> paint_hms (fst (run_pc (map (Pair KeyPress_f) ts) b)) now = paint_hms b now"
proof -
  obtain h0 m0 s0 where now: "now = (h0, m0, s0)" by (cases now)
  have da: "displayed (a\<lparr>dMinutes := dMinutes a + 60\<rparr>) now = displayed a now"
    unfolding now by (simp add: displayed_def Let_def add.assoc [symmetric])
  have db: "displayed_pc (b\<lparr>d_minutes := d_minutes b + 60\<rparr>) now = displayed_pc b now"
    unfolding now by (simp add: displayed_pc_def Let_def add.assoc [symmetric])
  have pa: "painthms (a\<lparr>dMinutes := dMinutes a + 60\<rparr>) now = painthms a now"
    unfolding painthms_def da by simp
  have pb: "paint_hms (b\<lparr>d_minutes := d_minutes b + 60\<rparr>) now = paint_hms b now"
    unfolding paint_hms_def db by simp
  show ?thesis
    unfolding run_add_minutes run_pc_add_minutes assms
    using da db pa pb by simp
qed

text \<open>
  The theorem at sixty presses on the clocks of the default size, at system time 10:59:07.
\<close>

theorem advance_minute_60_times_witness:
  "length (replicate 60 (10 :: int, 59 :: int, 7 :: int)) = 60
   \<and> displayed (fst (run (map (Pair KeyPress_f) (replicate 60 (10, 59, 7))) clock_400))
        (10, 59, 7) = (10, 59, 7)
   \<and> dHours (fst (run (map (Pair KeyPress_f) (replicate 60 (10, 59, 7))) clock_400)) = 0
   \<and> dMinutes (fst (run (map (Pair KeyPress_f) (replicate 60 (10, 59, 7))) clock_400)) = 60
   \<and> displayed_pc (fst (run_pc (map (Pair KeyPress_f) (replicate 60 (10, 59, 7))) Clock_400))
        (10, 59, 7) = (10, 59, 7)
   \<and> d_hours (fst (run_pc (map (Pair KeyPress_f) (replicate 60 (10, 59, 7))) Clock_400)) = 0
   \<and> d_minutes (fst (run_pc (map (Pair KeyPress_f) (replicate 60 (10, 59, 7))) Clock_400)) = 60"
proof -
  have len: "length (replicate 60 (10 :: int, 59 :: int, 7 :: int)) = 60" by simp
  have da: "displayed clock_400 (10, 59, 7) = (10, 59, 7)"
    by (simp add: displayed_def clock_400_def Let_def)
  have db: "displayed_pc Clock_400 (10, 59, 7) = (10, 59, 7)"
    by (simp add: displayed_pc_def Clock_400_def Let_def)
  have z: "dHours clock_400 = 0" "dMinutes clock_400 = 0" "d_hours Clock_400 = 0"
    "d_minutes Clock_400 = 0"
    by (simp_all add: clock_400_def Clock_400_def)
  from advance_minute_60_times [OF len, of clock_400 "(10, 59, 7)" Clock_400] len
  show ?thesis
    unfolding da db z by simp
qed

text \<open>
  Claim C8. After any sequence of key presses, the reset key sets both stored offsets to
  zero, and the redraw it triggers is the redraw of the clock with no adjustment: for a system
  time \<open>(h, m, s)\<close> with the minute in \<open>[0, 60)\<close> the displayed time is \<open>(h mod 12, m, s)\<close>,
  the system time on the twelve-hour dial, and the title is that time formatted.
\<close>

theorem reset_restores_system_time:
  assumes "0 \<le> m" and "m < 60"
  shows "dMinutes (fst (dispatch Key_space (fst (run ks a)) (h, m, s))) = 0
       \<and> dHours (fst (dispatch Key_space (fst (run ks a)) (h, m, s))) = 0
       \<and> displayed (fst (dispatch Key_space (fst (run ks a)) (h, m, s))) (h, m, s)
           = (h mod 12, m, s)
       \<and> snd (dispatch Key_space (fst (run ks a)) (h, m, s))
           = redraw (a\<lparr>dHours := 0, dMinutes := 0\<rparr>) (h, m, s)
       \<and> painthms (fst (dispatch Key_space (fst (run ks a)) (h, m, s))) (h, m, s)
           = painthms (a\<lparr>dHours := 0, dMinutes := 0\<rparr>) (h, m, s)
       \<and> painthms (a\<lparr>dHours := 0, dMinutes := 0\<rparr>) (h, m, s) ! 1
           = root_title (fmt_title (h mod 12, m, s))
       \<and> d_minutes (fst (dispatch_pc Key_space (fst (run_pc ks b)) (h, m, s))) = 0
       \<and> d_hours (fst (dispatch_pc Key_space (fst (run_pc ks b)) (h, m, s))) = 0
       \<and> displayed_pc (fst (dispatch_pc Key_space (fst (run_pc ks b)) (h, m, s))) (h, m, s)
           = (h mod 12, m, s)
       \<and> snd (dispatch_pc Key_space (fst (run_pc ks b)) (h, m, s))
           = redraw_pc (b\<lparr>d_hours := 0, d_minutes := 0\<rparr>) (h, m, s)
       \<and> paint_hms (fst (dispatch_pc Key_space (fst (run_pc ks b)) (h, m, s))) (h, m, s)
           = paint_hms (b\<lparr>d_hours := 0, d_minutes := 0\<rparr>) (h, m, s)
       \<and> paint_hms (b\<lparr>d_hours := 0, d_minutes := 0\<rparr>) (h, m, s) ! 1
           = root_title (fmt_title (h mod 12, m, s))"
proof -
  obtain dm dh where ra: "fst (run ks a) = a\<lparr>dMinutes := dm, dHours := dh\<rparr>"
    using run_frame by blast
  obtain em eh where rb: "fst (run_pc ks b) = b\<lparr>d_minutes := em, d_hours := eh\<rparr>"
    using run_pc_frame by blast
  have sa: "fst (dispatch Key_space (fst (run ks a)) (h, m, s)) = a\<lparr>dHours := 0, dMinutes := 0\<rparr>"
    unfolding dispatch_state ra by simp
  have sb: "fst (dispatch_pc Key_space (fst (run_pc ks b)) (h, m, s))
              = b\<lparr>d_hours := 0, d_minutes := 0\<rparr>"
    unfolding dispatch_pc_state rb by simp
  have oa: "snd (dispatch Key_space (fst (run ks a)) (h, m, s))
              = redraw (a\<lparr>dHours := 0, dMinutes := 0\<rparr>) (h, m, s)"
    unfolding ra by (simp add: resetTime_def Let_def)
  have ob: "snd (dispatch_pc Key_space (fst (run_pc ks b)) (h, m, s))
              = redraw_pc (b\<lparr>d_hours := 0, d_minutes := 0\<rparr>) (h, m, s)"
    unfolding rb by (simp add: reset_time_def Let_def)
  have da: "displayed (a\<lparr>dHours := 0, dMinutes := 0\<rparr>) (h, m, s) = (h mod 12, m, s)"
    using assms by (simp add: displayed_def Let_def)
  have db: "displayed_pc (b\<lparr>d_hours := 0, d_minutes := 0\<rparr>) (h, m, s) = (h mod 12, m, s)"
    using assms by (simp add: displayed_pc_def Let_def)
  have ta: "painthms (a\<lparr>dHours := 0, dMinutes := 0\<rparr>) (h, m, s) ! 1
           = root_title (fmt_title (h mod 12, m, s))"
    unfolding painthms_unfold [OF da] by simp
  have tb: "paint_hms (b\<lparr>d_hours := 0, d_minutes := 0\<rparr>) (h, m, s) ! 1
           = root_title (fmt_title (h mod 12, m, s))"
    unfolding paint_hms_unfold [OF db] by simp
  show ?thesis
    unfolding sa sb oa ob da db ta tb by simp
qed

text \<open>
  The theorem after three key presses on the clocks of the default size, reset at 14:20:01.
\<close>

theorem reset_restores_system_time_witness:
  "(0 :: int) \<le> 20 \<and> (20 :: int) < 60
   \<and> dMinutes (fst (dispatch Key_space
        (fst (run [(KeyPress_f, (14, 19, 58)), (KeyPress_V, (14, 19, 59)), (KeyPress_v, (14, 20, 0))]
           clock_400)) (14, 20, 1))) = 0
   \<and> dHours (fst (dispatch Key_space
        (fst (run [(KeyPress_f, (14, 19, 58)), (KeyPress_V, (14, 19, 59)), (KeyPress_v, (14, 20, 0))]
           clock_400)) (14, 20, 1))) = 0
   \<and> displayed (fst (dispatch Key_space
        (fst (run [(KeyPress_f, (14, 19, 58)), (KeyPress_V, (14, 19, 59)), (KeyPress_v, (14, 20, 0))]
           clock_400)) (14, 20, 1))) (14, 20, 1) = (2, 20, 1)
   \<and> painthms (clock_400\<lparr>dHours := 0, dMinutes := 0\<rparr>) (14, 20, 1) ! 1 = root_title ''02:20:01''
   \<and> displayed_pc (fst (dispatch_pc Key_space
        (fst (run_pc [(KeyPress_f, (14, 19, 58)), (KeyPress_V, (14, 19, 59)), (KeyPress_v, (14, 20, 0))]
           Clock_400)) (14, 20, 1))) (14, 20, 1) = (2, 20, 1)
   \<and> paint_hms (Clock_400\<lparr>d_hours := 0, d_minutes := 0\<rparr>) (14, 20, 1) ! 1
        = root_title ''02:20:01''"
proof -
  have r: "(0 :: int) \<le> 20" "(20 :: int) < 60" by simp_all
  have d20: "digits10 20 = ''20''"
    by (subst digits10.simps) (simp add: digits10_digit)
  have t: "fmt_title (14 mod 12, 20, 1) = ''02:20:01''"
    by (simp add: fmt_title_def fmt_02i_def digits10_digit d20)
  have m: "(14 :: int) mod 12 = 2" by simp
  from reset_restores_system_time [OF r,
      of "[(KeyPress_f, (14, 19, 58)), (KeyPress_V, (14, 19, 59)), (KeyPress_v, (14, 20, 0))]"
         clock_400 14 1 Clock_400] r
  show ?thesis
    unfolding t unfolding m by simp
qed

text \<open>
  Claim C10. Whatever the stored offsets, the displayed hour lies in \<open>[0, 12)\<close> and the
  displayed minute in \<open>[0, 60)\<close>; the hour field of the title is one of \<open>00\<close> to \<open>11\<close>; and
  when the displayed minute is 0, one press of the retreat-minute key makes it 59 and leaves
  the hour.
\<close>

theorem displayed_fields_in_range:
  assumes "displayed a now = (h, m, s)" and "displayed_pc b now = (h, m, s)"
  shows "0 \<le> h \<and> h < 12 \<and> 0 \<le> m \<and> m < 60
       \<and> painthms a now ! 1 = root_title (fmt_02i h @ '':'' @ fmt_02i m @ '':'' @ fmt_02i s)
       \<and> paint_hms b now ! 1 = root_title (fmt_02i h @ '':'' @ fmt_02i m @ '':'' @ fmt_02i s)
       \<and> fmt_02i h \<in> set [''00'', ''01'', ''02'', ''03'', ''04'', ''05'', ''06'', ''07'',
             ''08'', ''09'', ''10'', ''11'']
       \<and> (m = 0 \<longrightarrow>
            displayed (fst (dispatch KeyPress_v a now)) now = (h, 59, s)
          \<and> displayed_pc (fst (dispatch_pc KeyPress_v b now)) now = (h, 59, s))"
proof -
  have rng: "0 \<le> h \<and> h < 12 \<and> 0 \<le> m \<and> m < 60"
    using displayed_range [OF assms(1)] .
  have ta: "painthms a now ! 1 = root_title (fmt_02i h @ '':'' @ fmt_02i m @ '':'' @ fmt_02i s)"
    unfolding painthms_unfold [OF assms(1)] by (simp add: fmt_title_def)
  have tb: "paint_hms b now ! 1 = root_title (fmt_02i h @ '':'' @ fmt_02i m @ '':'' @ fmt_02i s)"
    unfolding paint_hms_unfold [OF assms(2)] by (simp add: fmt_title_def)
  have hh: "fmt_02i h \<in> set [''00'', ''01'', ''02'', ''03'', ''04'', ''05'', ''06'', ''07'',
             ''08'', ''09'', ''10'', ''11'']"
    using rng by (intro fmt_02i_hour) simp_all
  obtain h0 m0 s0 where now: "now = (h0, m0, s0)" by (cases now)
  have retreat: "displayed (fst (dispatch KeyPress_v a now)) now = (h, 59, s)
          \<and> displayed_pc (fst (dispatch_pc KeyPress_v b now)) now = (h, 59, s)" if "m = 0"
  proof -
    from assms(1) that have a0: "(m0 + dMinutes a) mod 60 = 0"
      and ah: "(h0 + dHours a) mod 12 = h" and ss: "s0 = s"
      unfolding now by (simp_all add: displayed_def Let_def)
    from assms(2) that have b0: "(m0 + d_minutes b) mod 60 = 0"
      and bh: "(h0 + d_hours b) mod 12 = h"
      unfolding now by (simp_all add: displayed_pc_def Let_def)
    have a59: "(m0 + (dMinutes a - 1)) mod 60 = 59"
      using minute_before_zero [OF a0] by (simp add: algebra_simps)
    have b59: "(m0 + (d_minutes b - 1)) mod 60 = 59"
      using minute_before_zero [OF b0] by (simp add: algebra_simps)
    show ?thesis
      unfolding dispatch_state dispatch_pc_state now
      using a59 b59 ah bh ss by (simp add: displayed_def displayed_pc_def Let_def)
  qed
  show ?thesis
    apply (rule conjI, rule rng [THEN conjunct1])
    apply (rule conjI, rule rng [THEN conjunct2, THEN conjunct1])
    apply (rule conjI, rule rng [THEN conjunct2, THEN conjunct2, THEN conjunct1])
    apply (rule conjI, rule rng [THEN conjunct2, THEN conjunct2, THEN conjunct2])
    apply (rule conjI, rule ta)
    apply (rule conjI, rule tb)
    apply (rule conjI, rule hh)
    apply (rule impI, erule retreat)
    done
qed

text \<open>
  The theorem with offsets \<open>- 125\<close> minutes and \<open>36\<close> hours at system time 12:05:30: twelve
  o'clock is shown as \<open>00\<close>.
\<close>

theorem displayed_fields_in_range_witness:
  "displayed (clock_400\<lparr>dMinutes := - 125, dHours := 36\<rparr>) (12, 5, 30) = (0, 0, 30)
   \<and> displayed_pc (Clock_400\<lparr>d_minutes := - 125, d_hours := 36\<rparr>) (12, 5, 30) = (0, 0, 30)
   \<and> painthms (clock_400\<lparr>dMinutes := - 125, dHours := 36\<rparr>) (12, 5, 30) ! 1
       = root_title ''00:00:30''
   \<and> paint_hms (Clock_400\<lparr>d_minutes := - 125, d_hours := 36\<rparr>) (12, 5, 30) ! 1
       = root_title ''00:00:30''
   \<and> displayed (fst (dispatch KeyPress_v (clock_400\<lparr>dMinutes := - 125, dHours := 36\<rparr>)
        (12, 5, 30))) (12, 5, 30) = (0, 59, 30)
   \<and> displayed_pc (fst (dispatch_pc KeyPress_v (Clock_400\<lparr>d_minutes := - 125, d_hours := 36\<rparr>)
        (12, 5, 30))) (12, 5, 30) = (0, 59, 30)"
proof -
  have da: "displayed (clock_400\<lparr>dMinutes := - 125, dHours := 36\<rparr>) (12, 5, 30) = (0, 0, 30)"
    by (simp add: displayed_def Let_def)
  have db: "displayed_pc (Clock_400\<lparr>d_minutes := - 125, d_hours := 36\<rparr>) (12, 5, 30) = (0, 0, 30)"
    by (simp add: displayed_pc_def Let_def)
  have d30: "digits10 30 = ''30''"
    by (subst digits10.simps) (simp add: digits10_digit)
  have t: "fmt_02i 0 @ '':'' @ fmt_02i 0 @ '':'' @ fmt_02i 30 = ''00:00:30''"
    by (simp add: fmt_02i_def digits10_digit d30)
  from displayed_fields_in_range [OF da db] da db show ?thesis
    unfolding t by simp
qed

subsection \<open>The two modules compared\<close>

text \<open>
  Claim C9, as stated, fails: on the two start states at system time 15:00:15 the second-hand
  lines differ in more than the fill colour. The first module passes \<^verbatim>\<open>arrow='last'\<close> and no
  width, the second passes \<^verbatim>\<open>width=pad/15\<close> and no arrow, so the call of the second module is
  not the call of the first with the colour replaced.
\<close>

theorem second_hand_differs_beyond_fill:
  "same_state clock_400 Clock_400
   \<and> redraw clock_400 (15, 0, 15) ! 16 =
       create_line ((200, 200), (366.25, 200)) ''#ffffff'' ''handles'' None (Some ''last'')
   \<and> redraw_pc Clock_400 (15, 0, 15) ! 16 =
       create_line ((200, 200), (366.25, 200)) ''#ff0000'' ''handles'' (Some (5 / 3)) None
   \<and> redraw_pc Clock_400 (15, 0, 15) ! 16 \<noteq>
       create_line ((200, 200), (366.25, 200)) ''#ff0000'' ''handles'' None (Some ''last'')"
proof -
  have s: "same_state clock_400 Clock_400"
    by (simp add: same_state_def clock_400_def Clock_400_def)
  obtain ticks centre where len: "length ticks = 12"
    and ra: "redraw clock_400 (15, 0, 15) = ticks @ painthms clock_400 (15, 0, 15) @ centre"
    and rb: "redraw_pc Clock_400 (15, 0, 15) = ticks @ paint_hms Clock_400 (15, 0, 15) @ centre"
    using redraw_split [OF s] by blast
  have da: "displayed clock_400 (15, 0, 15) = (3, 0, 15)"
    by (simp add: displayed_def clock_400_def Let_def)
  have db: "displayed_pc Clock_400 (15, 0, 15) = (3, 0, 15)"
    by (simp add: displayed_pc_def Clock_400_def Let_def)
  have ang: "pi / 2 - pi / 30 * real_of_int 15 = 0" by simp
  have wa: "windowToViewport (T clock_400) 0 0 x 0 = ((200, 200), (175 * x + 200, 200))" for x
    by (simp add: windowToViewport_def windowToViewport_priv_def clock_400_def Let_def)
  have wb: "window_to_viewport (my_mapper Clock_400) 0 0 x 0
              = ((200, 200), (175 * x + 200, 200))" for x
    by (simp add: window_to_viewport_def window_to_viewport_priv_def Clock_400_def Let_def)
  have na: "redraw clock_400 (15, 0, 15) ! 16 =
       create_line ((200, 200), (366.25, 200)) ''#ffffff'' ''handles'' None (Some ''last'')"
    unfolding ra painthms_unfold [OF da] ang using len
    by (simp add: nth_append wa) (simp add: clock_400_def)
  have nb: "redraw_pc Clock_400 (15, 0, 15) ! 16 =
       create_line ((200, 200), (366.25, 200)) ''#ff0000'' ''handles'' (Some (5 / 3)) None"
    unfolding rb paint_hms_unfold [OF db] ang using len
    by (simp add: nth_append wb) (simp add: Clock_400_def)
  have ne: "redraw_pc Clock_400 (15, 0, 15) ! 16 \<noteq>
       create_line ((200, 200), (366.25, 200)) ''#ff0000'' ''handles'' None (Some ''last'')"
    unfolding nb by simp
  from s na nb ne show ?thesis by blast
qed

text \<open>
  Claim C9, amended. The two constructors return the same error or the same fields, and
  mappers with the same factor and offsets map every pair of points alike. For two clocks in
  the same state and the same time, the two redraws issue equally many calls, the same
  calls before and after the second-hand line, and second-hand lines with the same
  coordinates and tag; the first module draws it with its time colour, an arrow and no width,
  the second with its second colour, width \<open>pad / 15\<close> and no arrow.
\<close>

theorem redraws_agree_up_to_second_hand:
  assumes "same_state a b"
  shows "map_sum id (\<lambda>m. (world m, viewport m, f m, c_1 m, c_2 m)) (mapper_init w v)
           = map_sum id (\<lambda>M. (world_pc M, viewport_pc M, factor M, c_1_pc M, c_2_pc M))
               (Mapper_init w v)
       \<and> (f m = factor M \<and> c_1 m = c_1_pc M \<and> c_2 m = c_2_pc M \<longrightarrow>
            windowToViewport m x1 y1 x2 y2 = window_to_viewport M x1 y1 x2 y2)
       \<and> length (redraw_pc b now) = length (redraw a now)
       \<and> take 16 (redraw_pc b now) = take 16 (redraw a now)
       \<and> drop 17 (redraw_pc b now) = drop 17 (redraw a now)
       \<and> (\<exists>coords.
             redraw a now ! 16 =
               create_line coords (timecolor a) (ALL_priv a) None (Some ''last'')
           \<and> redraw_pc b now ! 16 =
               create_line coords (secondcolor b) (all_priv b) (Some (pad_pc b / 15)) None)"
proof -
  obtain x_min y_min x_max y_max where w: "w = (x_min, y_min, x_max, y_max)" by (cases w)
  obtain X_min Y_min X_max Y_max where v: "v = (X_min, Y_min, X_max, Y_max)" by (cases v)
  have ctor: "map_sum id (\<lambda>m. (world m, viewport m, f m, c_1 m, c_2 m)) (mapper_init w v)
           = map_sum id (\<lambda>M. (world_pc M, viewport_pc M, factor M, c_1_pc M, c_2_pc M))
               (Mapper_init w v)"
  proof (cases "x_min = x_max \<or> y_min = y_max")
    case True
    show ?thesis
      unfolding w v mapper_init_fail [OF True] Mapper_init_fail [OF True] by simp
  next
    case False
    then have ne: "x_min \<noteq> x_max" "y_min \<noteq> y_max" by auto
    show ?thesis
      unfolding w v mapper_init_ok [OF ne] Mapper_init_ok [OF ne] by simp
  qed
  have pt: "windowToViewport m x1 y1 x2 y2 = window_to_viewport M x1 y1 x2 y2"
    if "f m = factor M \<and> c_1 m = c_1_pc M \<and> c_2 m = c_2_pc M"
    using that by (intro windowToViewport_same) simp_all
  obtain ticks centre where len: "length ticks = 12"
    and ra: "redraw a now = ticks @ painthms a now @ centre"
    and rb: "redraw_pc b now = ticks @ paint_hms b now @ centre"
    using redraw_split [OF assms] by blast
  obtain h mi s where da: "displayed a now = (h, mi, s)" by (cases "displayed a now")
  have db: "displayed_pc b now = (h, mi, s)"
    unfolding same_state_displayed [OF assms] by (rule da)
  have fields: "timecolor_pc b = timecolor a" "all_priv b = ALL_priv a" "pad_pc b = pad a"
    using assms by (simp_all add: same_state_def)
  note wv = same_state_mapper [OF assms, symmetric]
  note pa = painthms_unfold [OF da]
  note pb = paint_hms_unfold [OF db]
  have l: "length (redraw_pc b now) = length (redraw a now)"
    unfolding ra rb pa pb by simp
  have t: "take 16 (redraw_pc b now) = take 16 (redraw a now)"
    unfolding ra rb pa pb using len by (simp add: fields wv)
  have d: "drop 17 (redraw_pc b now) = drop 17 (redraw a now)"
    unfolding ra rb pa pb using len by simp
  have na: "redraw a now ! 16 =
      create_line (windowToViewport (T a) 0 0
         (cos (pi / 2 - pi / 30 * real_of_int s) * 0.95)
         (sin (pi / 2 - pi / 30 * real_of_int s) * 0.95))
       (timecolor a) (ALL_priv a) None (Some ''last'')"
    unfolding ra pa using len by (simp add: nth_append)
  have nb: "redraw_pc b now ! 16 =
      create_line (windowToViewport (T a) 0 0
         (cos (pi / 2 - pi / 30 * real_of_int s) * 0.95)
         (sin (pi / 2 - pi / 30 * real_of_int s) * 0.95))
       (secondcolor b) (all_priv b) (Some (pad_pc b / 15)) None"
    unfolding rb pb using len by (simp add: nth_append wv)
  from na nb have n: "\<exists>coords.
             redraw a now ! 16 =
               create_line coords (timecolor a) (ALL_priv a) None (Some ''last'')
           \<and> redraw_pc b now ! 16 =
               create_line coords (secondcolor b) (all_priv b) (Some (pad_pc b / 15)) None"
    by blast
  show ?thesis
    apply (rule conjI, rule ctor)
    apply (rule conjI, rule impI, erule pt)
    apply (rule conjI, rule l)
    apply (rule conjI, rule t)
    apply (rule conjI, rule d)
    apply (rule n)
    done
qed

text \<open>
  The theorem on the two start states at system time 15:00:15.
\<close>

theorem redraws_agree_up_to_second_hand_witness:
  "same_state clock_400 Clock_400
   \<and> length (redraw_pc Clock_400 (15, 0, 15)) = length (redraw clock_400 (15, 0, 15))
   \<and> take 16 (redraw_pc Clock_400 (15, 0, 15)) = take 16 (redraw clock_400 (15, 0, 15))
   \<and> drop 17 (redraw_pc Clock_400 (15, 0, 15)) = drop 17 (redraw clock_400 (15, 0, 15))
   \<and> (\<exists>coords.
         redraw clock_400 (15, 0, 15) ! 16 =
           create_line coords ''#ffffff'' ''handles'' None (Some ''last'')
       \<and> redraw_pc Clock_400 (15, 0, 15) ! 16 =
           create_line coords ''#ff0000'' ''handles'' (Some (25 / 15)) None)"
proof -
  have s: "same_state clock_400 Clock_400"
    by (simp add: same_state_def clock_400_def Clock_400_def)
  have fa: "timecolor clock_400 = ''#ffffff''" "ALL_priv clock_400 = ''handles''"
    by (simp_all add: clock_400_def)
  have fb: "secondcolor Clock_400 = ''#ff0000''" "all_priv Clock_400 = ''handles''"
    "pad_pc Clock_400 = 25"
    by (simp_all add: Clock_400_def)
  from redraws_agree_up_to_second_hand [OF s, of _ _ _ _ _ _ _ _ "(15, 0, 15)"] s
  show ?thesis
    unfolding fa fb by blast
qed

end
